theory Spec2Isabelle
  imports Complex_Main
begin

section \<open>Values exchanged with the remote API\<close>

text \<open>
  A decoded JSON document, as Python's decoder hands it to the client: \<open>None\<close>, a bool,
  a number, a \<open>str\<close>, a \<open>list\<close> or a \<open>dict\<close>. A \<open>dict\<close> is kept as the list of its items
  (keys distinct, in insertion order); \<open>map_of\<close> reads a key. Strings are byte strings here,
  so the model agrees with Python's \<open>str\<close> on ASCII text.
\<close>

datatype json =
    JNull
  | JBool bool
  | JNum rat
  | JStr string
  | JArr "json list"
  | JObj "(string \<times> json) list"

text \<open>
  The exceptions that can leave the client. \<open>RentAHumanError message status_code\<close> is the
  base class of \<^verbatim>\<open>client.py\<close>; its message is whatever object the raise site passes (a
  \<open>str\<close>, or the \<open>error\<close> field of a response body). \<open>RateLimitError retry_after\<close> is its
  subclass, whose constructor fixes the status code to 429 and derives the message
  from \<open>retry_after\<close>. The remaining constructors are exceptions of Python itself and of
  the libraries, which none of the client's handlers catches.
\<close>

datatype exn =
    RentAHumanError json "int option"
  | RateLimitError rat
  | ValueError
  | AttributeError
  | KeyError
  | IndexError
  | TypeError
  | JSONDecodeError string
  | PydanticValidationError

fun exn_status_code :: "exn \<Rightarrow> int option" where
  "exn_status_code (RentAHumanError m sc) = sc"
| "exn_status_code (RateLimitError ra) = Some 429"
| "exn_status_code e = None"

subsection \<open>Python's string formatting\<close>

text \<open>\<open>str(n)\<close> for an \<open>int\<close>: the decimal digits, with a minus sign when negative.\<close>

function str_nat :: "nat \<Rightarrow> string" where
  "str_nat n =
     (if n < 10 then [''0123456789'' ! n]
      else str_nat (n div 10) @ [''0123456789'' ! (n mod 10)])"
  by pat_completeness auto
termination
  by (relation "measure id") auto

declare str_nat.simps [simp del]

definition str_int :: "int \<Rightarrow> string" where
  "str_int i = (if i < 0 then CHR 0x2D # str_nat (nat (- i)) else str_nat (nat i))"

text \<open>
  \<open>repr(s)\<close> for a \<open>str\<close>, the \<open>!r\<close> conversion of an f-string: single quotes, unless the
  text holds a single quote and no double quote; the backslash, the chosen quote, and the
  control characters are escaped. Bytes from 0x80 on (UTF-8 text) are kept.
\<close>

definition repr_char :: "char \<Rightarrow> char \<Rightarrow> string" where
  "repr_char q c =
     (if c = CHR 0x5C then [CHR 0x5C, CHR 0x5C]
      else if c = q then [CHR 0x5C, q]
      else if c = CHR 0x0A then [CHR 0x5C, CHR ''n'']
      else if c = CHR 0x0D then [CHR 0x5C, CHR ''r'']
      else if c = CHR 0x09 then [CHR 0x5C, CHR ''t'']
      else if (of_char c :: nat) < 32 \<or> (of_char c :: nat) = 127
        then [CHR 0x5C, CHR ''x'',
              ''0123456789abcdef'' ! ((of_char c :: nat) div 16),
              ''0123456789abcdef'' ! ((of_char c :: nat) mod 16)]
      else [c])"

definition py_repr :: "string \<Rightarrow> string" where
  "py_repr s =
     (let q = (if CHR 0x27 \<in> set s \<and> CHR 0x22 \<notin> set s then CHR 0x22 else CHR 0x27)
      in q # concat (map (repr_char q) s) @ [q])"

text \<open>\<open>sub in s\<close> for two strings: \<open>sub\<close> occurs in \<open>s\<close> as a contiguous run.\<close>

fun starts_with :: "string \<Rightarrow> string \<Rightarrow> bool" where
  "starts_with [] s = True"
| "starts_with (p # ps) [] = False"
| "starts_with (p # ps) (c # cs) = (p = c \<and> starts_with ps cs)"

fun str_in :: "string \<Rightarrow> string \<Rightarrow> bool" where
  "str_in sub [] = (sub = [])"
| "str_in sub (c # cs) = (starts_with sub (c # cs) \<or> str_in sub cs)"

section \<open>The transport: requests, responses, effects\<close>

text \<open>
  A query parameter's value, and the arguments of one call of the HTTP library's
  \<open>request(method, url, **kwargs)\<close>.
\<close>

datatype qval = QInt int | QFloat rat | QStr string

record request =
  verb :: string
  url :: string
  params :: "(string \<times> qval) list option"
  json_arg :: "json option"
  timeout_arg :: "int option"

text \<open>
  What the library answers to one call. A response carries what the executor reads of it:
  \<^item> \<open>status_code\<close>;
  \<^item> \<open>retry_after\<close>: the \<open>Retry-After\<close> header as \<open>float()\<close> reads it: \<open>Absent\<close>, or
    \<open>Seconds r\<close> for a text that \<open>float()\<close> converts to the (finite) number \<open>r\<close>, or
    \<open>Unparseable\<close> for a text on which \<open>float()\<close> raises \<open>ValueError\<close> (an HTTP date, say);
  \<^item> \<open>reason\<close>: the reason phrase (\<open>resp.reason\<close>, \<open>resp.reason_phrase\<close>);
  \<^item> \<open>content\<close>: the body as the JSON decoder reads it: \<open>Empty\<close> (no bytes, so
    \<open>resp.content\<close> is falsy and \<open>resp.json()\<close> fails), \<open>Undecodable m\<close> (bytes that are not
    JSON; \<open>m\<close> is the decoder's message) or \<open>Decoded j\<close>.
  \<open>Failure m\<close> is an exception of the library's own class (\<open>requests.RequestException\<close>,
  \<open>httpx.HTTPError\<close>) raised by the call, with \<open>m\<close> its \<open>str()\<close>.
\<close>

datatype retry_after_header = Absent | Seconds rat | Unparseable

datatype body = Empty | Undecodable string | Decoded json

record response =
  status_code :: int
  retry_after :: retry_after_header
  reason :: "string option"
  content :: body

datatype outcome = Response response | Failure string

text \<open>
  The effects of a call, in order: the HTTP requests issued and the sleeps completed.
  A run is the effect log together with the value returned or the exception raised.
\<close>

datatype event = Request request | Sleep rat

type_synonym 'a run = "event list \<times> (exn + 'a)"

definition prepend :: "event list \<Rightarrow> 'a run \<Rightarrow> 'a run" where
  "prepend evs r = (evs @ fst r, snd r)"

fun requests_of :: "event list \<Rightarrow> request list" where
  "requests_of [] = []"
| "requests_of (Request rq # evs) = rq # requests_of evs"
| "requests_of (Sleep d # evs) = requests_of evs"

definition n_requests :: "event list \<Rightarrow> nat" where
  "n_requests evs = length (requests_of evs)"

text \<open>The value a request transmits for the query parameter \<open>key\<close>, if any.\<close>

definition query_value :: "string \<Rightarrow> request \<Rightarrow> qval option" where
  "query_value key rq = (case params rq of None \<Rightarrow> None | Some ps \<Rightarrow> map_of ps key)"

fun sleeps :: "event list \<Rightarrow> rat list" where
  "sleeps [] = []"
| "sleeps (Request rq # evs) = sleeps evs"
| "sleeps (Sleep d # evs) = d # sleeps evs"

section \<open>The request executor\<close>

text \<open>
  The client object after \<open>__init__\<close>: the base URL with its trailing slashes removed,
  the timeout, the retry budget and the optional API key (a default header of the
  session). \<open>max_retries\<close> is a Python \<open>int\<close>; nothing validates it.
\<close>

record config =
  base_url :: string
  timeout :: int
  max_retries :: int
  api_key :: "string option"

definition rstrip_slash :: "string \<Rightarrow> string" where
  "rstrip_slash s = rev (dropWhile (\<lambda>c. c = CHR ''/'') (rev s))"

definition BASE_URL :: string where
  "BASE_URL = ''https://rentahuman.ai/api''"

definition DEFAULT_TIMEOUT :: int where
  "DEFAULT_TIMEOUT = 30"

definition new_client :: "string option \<Rightarrow> string \<Rightarrow> int \<Rightarrow> int \<Rightarrow> config" where
  "new_client key base tmo retries =
     \<lparr>base_url = rstrip_slash base, timeout = tmo, max_retries = retries, api_key = key\<rparr>"

text \<open>
  One pass through the body of the loop ends in one of three ways: \<open>return\<close>, an exception
  that leaves \<open>_request\<close>, or a completed sleep followed by \<open>continue\<close>.
\<close>

datatype step = Return json | Raise exn | Retry rat

text \<open>
  \<open>time.sleep(d)\<close> raises \<open>ValueError\<close> on a negative duration; \<open>asyncio.sleep(d)\<close> returns
  at once when \<open>d \<le> 0\<close>. Both are followed by \<open>continue\<close>.
\<close>

definition time_sleep :: "rat \<Rightarrow> step" where
  "time_sleep d = (if d < 0 then Raise ValueError else Retry d)"

definition asyncio_sleep :: "rat \<Rightarrow> step" where
  "asyncio_sleep d = Retry d"

text \<open>\<open>float(resp.headers.get("Retry-After", 1.0))\<close>.\<close>

definition read_retry_after :: "response \<Rightarrow> exn + rat" where
  "read_retry_after resp =
     (case retry_after resp of
        Absent \<Rightarrow> Inr 1
      | Seconds r \<Rightarrow> Inr r
      | Unparseable \<Rightarrow> Inl ValueError)"

text \<open>\<open>resp.json()\<close>: the decoded body, or the decoder's message when it fails.\<close>

definition resp_json :: "response \<Rightarrow> string + json" where
  "resp_json resp =
     (case content resp of
        Empty \<Rightarrow> Inl ''Expecting value: line 1 column 1 (char 0)''
      | Undecodable m \<Rightarrow> Inl m
      | Decoded j \<Rightarrow> Inr j)"

text \<open>\<open>resp.json() if resp.content else {}\<close>.\<close>

definition error_body :: "response \<Rightarrow> string + json" where
  "error_body resp = (if content resp = Empty then Inr (JObj []) else resp_json resp)"

text \<open>\<open>resp.reason or f"HTTP {resp.status_code}"\<close>: \<open>None\<close> and the empty string are falsy.\<close>

definition reason_or_code :: "response \<Rightarrow> string" where
  "reason_or_code resp =
     (case reason resp of
        None \<Rightarrow> ''HTTP '' @ str_int (status_code resp)
      | Some r \<Rightarrow> if r = [] then ''HTTP '' @ str_int (status_code resp) else r)"

text \<open>
  \<open>body.get("error", ...)\<close> followed by the raise of the normalized error. Only a \<open>dict\<close>
  has \<open>get\<close>: on any other decoded body the attribute lookup raises \<open>AttributeError\<close>.
\<close>

definition raise_api_error :: "response \<Rightarrow> json \<Rightarrow> step" where
  "raise_api_error resp b =
     (case b of
        JObj kvs \<Rightarrow>
          Raise (RentAHumanError
            (case map_of kvs ''error'' of Some v \<Rightarrow> v | None \<Rightarrow> JStr (reason_or_code resp))
            (Some (status_code resp)))
      | _ \<Rightarrow> Raise AttributeError)"

subsection \<open>The blocking client (\<^verbatim>\<open>client.py\<close>)\<close>

text \<open>
  The handler \<open>except requests.RequestException as e\<close>. Its sleep is never negative.
\<close>

definition on_request_exception :: "config \<Rightarrow> nat \<Rightarrow> string \<Rightarrow> step" where
  "on_request_exception cfg attempt e =
     (if int attempt < max_retries cfg
      then time_sleep (1 / 2 * (of_nat attempt + 1))
      else Raise (RentAHumanError (JStr (''Request failed: '' @ e)) None))"

text \<open>
  The body of the loop. \<open>resp.json()\<close> of \<open>requests\<close> raises
  \<open>requests.exceptions.JSONDecodeError\<close>, a \<open>RequestException\<close>, so a body that does not
  decode is handled by the \<open>except\<close> clause like a failure of the call itself.
  \<open>ValueError\<close>, \<open>AttributeError\<close> and the client's own errors are not caught.
\<close>

definition attempt_sync :: "config \<Rightarrow> nat \<Rightarrow> outcome \<Rightarrow> step" where
  "attempt_sync cfg attempt out =
     (case out of
        Failure e \<Rightarrow> on_request_exception cfg attempt e
      | Response resp \<Rightarrow>
          if status_code resp = 429 then
            (case read_retry_after resp of
               Inl ex \<Rightarrow> Raise ex
             | Inr ra \<Rightarrow>
                 if int attempt < max_retries cfg then time_sleep ra
                 else Raise (RateLimitError ra))
          else if status_code resp \<ge> 400 then
            (case error_body resp of
               Inl e \<Rightarrow> on_request_exception cfg attempt e
             | Inr b \<Rightarrow> raise_api_error resp b)
          else
            (case resp_json resp of
               Inl e \<Rightarrow> on_request_exception cfg attempt e
             | Inr j \<Rightarrow> Return j))"

subsection \<open>The non-blocking client (\<^verbatim>\<open>async_client.py\<close>)\<close>

text \<open>The handler \<open>except httpx.HTTPError as e\<close>.\<close>

definition on_http_error :: "config \<Rightarrow> nat \<Rightarrow> string \<Rightarrow> step" where
  "on_http_error cfg attempt e =
     (if int attempt < max_retries cfg
      then asyncio_sleep (1 / 2 * (of_nat attempt + 1))
      else Raise (RentAHumanError (JStr (''Request failed: '' @ e)) None))"

text \<open>
  The body of the loop. \<open>resp.json()\<close> of \<open>httpx\<close> raises \<open>json.JSONDecodeError\<close>, a
  \<open>ValueError\<close> and no \<open>httpx.HTTPError\<close>: it leaves \<open>_request\<close> as it is.
\<close>

definition attempt_async :: "config \<Rightarrow> nat \<Rightarrow> outcome \<Rightarrow> step" where
  "attempt_async cfg attempt out =
     (case out of
        Failure e \<Rightarrow> on_http_error cfg attempt e
      | Response resp \<Rightarrow>
          if status_code resp = 429 then
            (case read_retry_after resp of
               Inl ex \<Rightarrow> Raise ex
             | Inr ra \<Rightarrow>
                 if int attempt < max_retries cfg then asyncio_sleep ra
                 else Raise (RateLimitError ra))
          else if status_code resp \<ge> 400 then
            (case error_body resp of
               Inl e \<Rightarrow> Raise (JSONDecodeError e)
             | Inr b \<Rightarrow> raise_api_error resp b)
          else
            (case resp_json resp of
               Inl e \<Rightarrow> Raise (JSONDecodeError e)
             | Inr j \<Rightarrow> Return j))"

subsection \<open>The loop\<close>

text \<open>
  \<open>for attempt in range(self.max_retries + 1)\<close>, from \<open>attempt\<close> on, around a loop body
  \<open>iter\<close>; the remote side answers the request of attempt \<open>n\<close> with \<open>env n\<close>. After the
  loop stands the final \<open>raise\<close>, reached only when the range is empty.
\<close>

function request_loop ::
  "(nat \<Rightarrow> outcome \<Rightarrow> step) \<Rightarrow> int \<Rightarrow> (nat \<Rightarrow> outcome) \<Rightarrow> request \<Rightarrow> nat \<Rightarrow> json run"
where
  "request_loop iter mr env rq attempt =
     (if int attempt < mr + 1 then
        (case iter attempt (env attempt) of
           Return j \<Rightarrow> ([Request rq], Inr j)
         | Raise ex \<Rightarrow> ([Request rq], Inl ex)
         | Retry d \<Rightarrow>
             prepend [Request rq, Sleep d] (request_loop iter mr env rq (Suc attempt)))
      else
        ([], Inl (RentAHumanError
                    (JStr (''Request failed after '' @ str_int mr @ '' retries'')) None)))"
  by pat_completeness auto
termination
  by (relation "measure (\<lambda>(iter, mr, env, rq, attempt). nat (mr + 1 - int attempt))") auto

declare request_loop.simps [simp del]

text \<open>
  \<open>_request\<close> of the two clients. The blocking one passes the timeout with every call
  (\<open>kwargs.setdefault("timeout", self.timeout)\<close>); the other one configured it when the
  \<open>httpx\<close> client was built.
\<close>

definition request_sync ::
  "config \<Rightarrow> (nat \<Rightarrow> outcome) \<Rightarrow> string \<Rightarrow> string \<Rightarrow>
     (string \<times> qval) list option \<Rightarrow> json option \<Rightarrow> json run"
where
  "request_sync cfg env v path ps js =
     request_loop (attempt_sync cfg) (max_retries cfg) env
       \<lparr>verb = v, url = base_url cfg @ path, params = ps, json_arg = js,
        timeout_arg = Some (timeout cfg)\<rparr> 0"

definition request_async ::
  "config \<Rightarrow> (nat \<Rightarrow> outcome) \<Rightarrow> string \<Rightarrow> string \<Rightarrow>
     (string \<times> qval) list option \<Rightarrow> json option \<Rightarrow> json run"
where
  "request_async cfg env v path ps js =
     request_loop (attempt_async cfg) (max_retries cfg) env
       \<lparr>verb = v, url = base_url cfg @ path, params = ps, json_arg = js,
        timeout_arg = None\<rparr> 0"

section \<open>Resource operations\<close>

text \<open>
  The two clients define the resource operations with the same bodies, each over its own
  \<open>_request\<close>; the definitions below take that executor as the parameter \<open>ex\<close>. Turning a
  payload into a typed entity is \<open>pydantic\<close>'s \<open>model_validate\<close> for the entity's class,
  the parameter \<open>validate\<close>.
\<close>

type_synonym executor =
  "string \<Rightarrow> string \<Rightarrow> (string \<times> qval) list option \<Rightarrow> json option \<Rightarrow> json run"

definition client_get :: "executor \<Rightarrow> string \<Rightarrow> (string \<times> qval) list option \<Rightarrow> json run" where
  "client_get ex path ps = ex ''GET'' path ps None"

definition client_post :: "executor \<Rightarrow> string \<Rightarrow> json option \<Rightarrow> json run" where
  "client_post ex path js = ex ''POST'' path None js"

definition client_patch :: "executor \<Rightarrow> string \<Rightarrow> json option \<Rightarrow> json run" where
  "client_patch ex path js = ex ''PATCH'' path None js"

text \<open>\<open>_sanitize_path_param\<close>, the same static method in both clients.\<close>

definition sanitize_path_param :: "string \<Rightarrow> exn + string" where
  "sanitize_path_param v =
     (if v = [] \<or> str_in ''/'' v \<or> str_in [CHR 0x5C] v \<or> str_in ''..'' v
      then Inl (RentAHumanError (JStr (''Invalid path parameter: '' @ py_repr v)) None)
      else Inr v)"

subsection \<open>Python's operations on decoded values\<close>

definition bind_exn :: "exn + 'a \<Rightarrow> ('a \<Rightarrow> exn + 'b) \<Rightarrow> exn + 'b" where
  "bind_exn r f = (case r of Inl e \<Rightarrow> Inl e | Inr x \<Rightarrow> f x)"

text \<open>What an operation does with the executor's result: an exception passes through.\<close>

definition then_run :: "'a run \<Rightarrow> ('a \<Rightarrow> exn + 'b) \<Rightarrow> 'b run" where
  "then_run r f = (fst r, bind_exn (snd r) f)"

text \<open>\<open>d.get(k, dflt)\<close>: only a \<open>dict\<close> has the method.\<close>

definition dict_get :: "json \<Rightarrow> string \<Rightarrow> json \<Rightarrow> exn + json" where
  "dict_get d k dflt =
     (case d of
        JObj kvs \<Rightarrow> Inr (case map_of kvs k of Some v \<Rightarrow> v | None \<Rightarrow> dflt)
      | _ \<Rightarrow> Inl AttributeError)"




text \<open>
  Iteration (\<open>for x in v\<close>): the items of a list, the keys of a \<open>dict\<close>, the characters of a
  \<open>str\<close>; anything else is not iterable.
\<close>

fun py_iter :: "json \<Rightarrow> exn + json list" where
  "py_iter (JArr xs) = Inr xs"
| "py_iter (JObj kvs) = Inr (map (\<lambda>kv. JStr (fst kv)) kvs)"
| "py_iter (JStr s) = Inr (map (\<lambda>c. JStr [c]) s)"
| "py_iter j = Inl TypeError"

text \<open>The list comprehension \<open>[f(x) for x in xs]\<close>: the first exception ends it.\<close>

fun comprehend :: "('a \<Rightarrow> exn + 'b) \<Rightarrow> 'a list \<Rightarrow> exn + 'b list" where
  "comprehend f [] = Inr []"
| "comprehend f (x # xs) =
     (case f x of
        Inl e \<Rightarrow> Inl e
      | Inr y \<Rightarrow> (case comprehend f xs of Inl e \<Rightarrow> Inl e | Inr ys \<Rightarrow> Inr (y # ys)))"

text \<open>\<open>M.model_validate(data.get(key, data))\<close>.\<close>

definition validate_entity :: "(json \<Rightarrow> exn + 'e) \<Rightarrow> string \<Rightarrow> json \<Rightarrow> exn + 'e" where
  "validate_entity validate key data = bind_exn (dict_get data key data) validate"

text \<open>\<open>[M.model_validate(x) for x in data.get(key, [])]\<close>.\<close>

definition validate_list :: "(json \<Rightarrow> exn + 'e) \<Rightarrow> string \<Rightarrow> json \<Rightarrow> exn + 'e list" where
  "validate_list validate key data =
     bind_exn (dict_get data key (JArr [])) (\<lambda>items. bind_exn (py_iter items) (comprehend validate))"

subsection \<open>Humans\<close>

text \<open>\<open>if s:\<close> for an optional string: \<open>None\<close> and the empty string are skipped.\<close>

definition if_set :: "string \<Rightarrow> string option \<Rightarrow> (string \<times> qval) list" where
  "if_set key s = (case s of None \<Rightarrow> [] | Some t \<Rightarrow> if t = [] then [] else [(key, QStr t)])"

text \<open>\<open>if x is not None:\<close> for an optional float.\<close>

definition if_not_none :: "string \<Rightarrow> rat option \<Rightarrow> (string \<times> qval) list" where
  "if_not_none key x = (case x of None \<Rightarrow> [] | Some r \<Rightarrow> [(key, QFloat r)])"

text \<open>The \<open>params\<close> dictionary that \<open>search_humans\<close> builds, in insertion order.\<close>

definition search_humans_params ::
  "string option \<Rightarrow> rat option \<Rightarrow> rat option \<Rightarrow> string option \<Rightarrow> int \<Rightarrow> int \<Rightarrow>
     (string \<times> qval) list"
where
  "search_humans_params skill min_rate max_rate name limit offset =
     [(''limit'', QInt (max 1 (min limit 500))), (''offset'', QInt (max 0 offset))]
     @ if_set ''skill'' skill
     @ if_not_none ''minRate'' min_rate
     @ if_not_none ''maxRate'' max_rate
     @ if_set ''name'' name"

definition search_humans ::
  "executor \<Rightarrow> (json \<Rightarrow> exn + 'h) \<Rightarrow> string option \<Rightarrow> rat option \<Rightarrow> rat option \<Rightarrow>
     string option \<Rightarrow> int \<Rightarrow> int \<Rightarrow> 'h list run"
where
  "search_humans ex validate skill min_rate max_rate name limit offset =
     then_run
       (client_get ex ''/humans''
          (Some (search_humans_params skill min_rate max_rate name limit offset)))
       (validate_list validate ''humans'')"

definition get_human :: "executor \<Rightarrow> (json \<Rightarrow> exn + 'h) \<Rightarrow> string \<Rightarrow> 'h run" where
  "get_human ex validate human_id =
     (case sanitize_path_param human_id of
        Inl e \<Rightarrow> ([], Inl e)
      | Inr hid \<Rightarrow>
          then_run (client_get ex (''/humans/'' @ hid) None) (validate_entity validate ''human''))"

text \<open>
  A skill (\<^verbatim>\<open>models.py\<close>): \<open>name: str\<close>, required, and \<open>category: str | None = None\<close>.
  \<open>Skill.model_validate\<close> accepts a \<open>dict\<close> whose \<open>name\<close> is a string and whose \<open>category\<close>,
  when present, is a string or \<open>None\<close>; other keys are ignored. \<open>Skill(name=s)\<close> validates
  the same way with \<open>name\<close> alone.
\<close>

datatype skill = Skill string "string option"

definition Skill_model_validate :: "json \<Rightarrow> exn + skill" where
  "Skill_model_validate j =
     (case j of
        JObj kvs \<Rightarrow>
          (case map_of kvs ''name'' of
             Some (JStr n) \<Rightarrow>
               (case map_of kvs ''category'' of
                  None \<Rightarrow> Inr (Skill n None)
                | Some JNull \<Rightarrow> Inr (Skill n None)
                | Some (JStr c) \<Rightarrow> Inr (Skill n (Some c))
                | Some _ \<Rightarrow> Inl PydanticValidationError)
           | _ \<Rightarrow> Inl PydanticValidationError)
      | _ \<Rightarrow> Inl PydanticValidationError)"





definition get_reviews :: "executor \<Rightarrow> string \<Rightarrow> json run" where
  "get_reviews ex human_id =
     (case sanitize_path_param human_id of
        Inl e \<Rightarrow> ([], Inl e)
      | Inr hid \<Rightarrow>
          then_run (client_get ex (''/humans/'' @ hid @ ''/reviews'') None)
            (\<lambda>data. dict_get data ''reviews'' (JArr [])))"

subsection \<open>Bookings\<close>


definition get_booking :: "executor \<Rightarrow> (json \<Rightarrow> exn + 'b) \<Rightarrow> string \<Rightarrow> 'b run" where
  "get_booking ex validate booking_id =
     (case sanitize_path_param booking_id of
        Inl e \<Rightarrow> ([], Inl e)
      | Inr bid \<Rightarrow>
          then_run (client_get ex (''/bookings/'' @ bid) None)
            (validate_entity validate ''booking''))"



subsection \<open>Bounties\<close>


definition get_bounty :: "executor \<Rightarrow> (json \<Rightarrow> exn + 'b) \<Rightarrow> string \<Rightarrow> 'b run" where
  "get_bounty ex validate bounty_id =
     (case sanitize_path_param bounty_id of
        Inl e \<Rightarrow> ([], Inl e)
      | Inr bid \<Rightarrow>
          then_run (client_get ex (''/bounties/'' @ bid) None)
            (validate_entity validate ''bounty''))"


definition get_bounty_applications ::
  "executor \<Rightarrow> (json \<Rightarrow> exn + 'a) \<Rightarrow> string \<Rightarrow> 'a list run"
where
  "get_bounty_applications ex validate bounty_id =
     (case sanitize_path_param bounty_id of
        Inl e \<Rightarrow> ([], Inl e)
      | Inr bid \<Rightarrow>
          then_run (client_get ex (''/bounties/'' @ bid @ ''/applications'') None)
            (validate_list validate ''applications''))"

definition accept_application :: "executor \<Rightarrow> string \<Rightarrow> string \<Rightarrow> json run" where
  "accept_application ex bounty_id application_id =
     (case sanitize_path_param bounty_id of
        Inl e \<Rightarrow> ([], Inl e)
      | Inr bid \<Rightarrow>
          (case sanitize_path_param application_id of
             Inl e \<Rightarrow> ([], Inl e)
           | Inr aid \<Rightarrow>
               client_post ex (''/bounties/'' @ bid @ ''/applications/'' @ aid @ ''/accept'') None))"

definition update_bounty :: "executor \<Rightarrow> (json \<Rightarrow> exn + 'b) \<Rightarrow> string \<Rightarrow> json \<Rightarrow> 'b run" where
  "update_bounty ex validate bounty_id updates =
     (case sanitize_path_param bounty_id of
        Inl e \<Rightarrow> ([], Inl e)
      | Inr bid \<Rightarrow>
          then_run (client_patch ex (''/bounties/'' @ bid) (Some updates))
            (validate_entity validate ''bounty''))"

subsection \<open>Conversations\<close>


definition send_message :: "executor \<Rightarrow> (json \<Rightarrow> exn + 'm) \<Rightarrow> string \<Rightarrow> string \<Rightarrow> 'm run" where
  "send_message ex validate conversation_id message =
     (case sanitize_path_param conversation_id of
        Inl e \<Rightarrow> ([], Inl e)
      | Inr cid \<Rightarrow>
          then_run
            (client_post ex (''/conversations/'' @ cid @ ''/messages'')
               (Some (JObj [(''message'', JStr message)])))
            (validate_entity validate ''message''))"

definition get_conversation :: "executor \<Rightarrow> (json \<Rightarrow> exn + 'c) \<Rightarrow> string \<Rightarrow> 'c run" where
  "get_conversation ex validate conversation_id =
     (case sanitize_path_param conversation_id of
        Inl e \<Rightarrow> ([], Inl e)
      | Inr cid \<Rightarrow>
          then_run (client_get ex (''/conversations/'' @ cid) None)
            (validate_entity validate ''conversation''))"


section \<open>Entity models\<close>

text \<open>
  \<^verbatim>\<open>models.py\<close> declares each entity as a \<open>pydantic\<close> model: a list of fields, each with
  its attribute name, its external name (\<open>Field(alias=...)\<close>; the attribute name where no
  alias is given) and its default (\<open>None\<close> here for a required field). A default of
  \<open>default_factory=list\<close> is the empty list.
\<close>

datatype field = Field (fname: string) (wire_name: string) (default_value: "json option")

definition CryptoWallet_fields :: "field list" where
  "CryptoWallet_fields =
     [Field ''chain'' ''chain'' (Some (JStr [])),
      Field ''address'' ''address'' (Some (JStr []))]"

definition Skill_fields :: "field list" where
  "Skill_fields =
     [Field ''name'' ''name'' None,
      Field ''category'' ''category'' (Some JNull)]"

definition Human_fields :: "field list" where
  "Human_fields =
     [Field ''id'' ''id'' (Some (JStr [])),
      Field ''name'' ''name'' (Some (JStr [])),
      Field ''location'' ''location'' (Some JNull),
      Field ''rate'' ''rate'' (Some JNull),
      Field ''skills'' ''skills'' (Some (JArr [])),
      Field ''bio'' ''bio'' (Some JNull),
      Field ''availability'' ''availability'' (Some JNull),
      Field ''crypto_wallets'' ''cryptoWallets'' (Some (JArr [])),
      Field ''rating'' ''rating'' (Some JNull),
      Field ''completed_tasks'' ''completedTasks'' (Some JNull),
      Field ''created_at'' ''createdAt'' (Some JNull)]"

definition BookingCreate_fields :: "field list" where
  "BookingCreate_fields =
     [Field ''human_id'' ''humanId'' None,
      Field ''agent_id'' ''agentId'' (Some (JStr ''rentahuman-py'')),
      Field ''task_title'' ''taskTitle'' None,
      Field ''start_time'' ''startTime'' None,
      Field ''estimated_hours'' ''estimatedHours'' None,
      Field ''description'' ''description'' (Some JNull)]"

definition Booking_fields :: "field list" where
  "Booking_fields =
     [Field ''id'' ''id'' (Some (JStr [])),
      Field ''human_id'' ''humanId'' (Some (JStr [])),
      Field ''agent_id'' ''agentId'' (Some (JStr [])),
      Field ''task_title'' ''taskTitle'' (Some (JStr [])),
      Field ''status'' ''status'' (Some (JStr ''pending'')),
      Field ''start_time'' ''startTime'' (Some JNull),
      Field ''estimated_hours'' ''estimatedHours'' (Some JNull),
      Field ''created_at'' ''createdAt'' (Some JNull)]"

definition BountyCreate_fields :: "field list" where
  "BountyCreate_fields =
     [Field ''agent_type'' ''agentType'' (Some (JStr ''rentahuman-py'')),
      Field ''title'' ''title'' None,
      Field ''description'' ''description'' None,
      Field ''estimated_hours'' ''estimatedHours'' (Some JNull),
      Field ''price_type'' ''priceType'' (Some (JStr ''fixed'')),
      Field ''price'' ''price'' (Some (JNum 0)),
      Field ''skills'' ''skills'' (Some (JArr [])),
      Field ''location'' ''location'' (Some JNull)]"

definition BountyApplication_fields :: "field list" where
  "BountyApplication_fields =
     [Field ''id'' ''id'' (Some (JStr [])),
      Field ''bounty_id'' ''bountyId'' (Some (JStr [])),
      Field ''human_id'' ''humanId'' (Some (JStr [])),
      Field ''human_name'' ''humanName'' (Some (JStr [])),
      Field ''message'' ''message'' (Some (JStr [])),
      Field ''rate'' ''rate'' (Some JNull),
      Field ''status'' ''status'' (Some (JStr ''pending'')),
      Field ''created_at'' ''createdAt'' (Some JNull)]"

definition Bounty_fields :: "field list" where
  "Bounty_fields =
     [Field ''id'' ''id'' (Some (JStr [])),
      Field ''title'' ''title'' (Some (JStr [])),
      Field ''description'' ''description'' (Some (JStr [])),
      Field ''agent_type'' ''agentType'' (Some (JStr [])),
      Field ''estimated_hours'' ''estimatedHours'' (Some JNull),
      Field ''price_type'' ''priceType'' (Some (JStr ''fixed'')),
      Field ''price'' ''price'' (Some (JNum 0)),
      Field ''status'' ''status'' (Some (JStr ''open'')),
      Field ''application_count'' ''applicationCount'' (Some (JNum 0)),
      Field ''created_at'' ''createdAt'' (Some JNull)]"

definition Message_fields :: "field list" where
  "Message_fields =
     [Field ''id'' ''id'' (Some (JStr [])),
      Field ''conversation_id'' ''conversationId'' (Some (JStr [])),
      Field ''sender'' ''sender'' (Some (JStr [])),
      Field ''content'' ''content'' (Some (JStr [])),
      Field ''created_at'' ''createdAt'' (Some JNull)]"

definition Conversation_fields :: "field list" where
  "Conversation_fields =
     [Field ''id'' ''id'' (Some (JStr [])),
      Field ''human_id'' ''humanId'' (Some (JStr [])),
      Field ''agent_type'' ''agentType'' (Some (JStr [])),
      Field ''subject'' ''subject'' (Some (JStr [])),
      Field ''messages'' ''messages'' (Some (JArr [])),
      Field ''created_at'' ''createdAt'' (Some JNull)]"

definition entity_models :: "field list list" where
  "entity_models =
     [CryptoWallet_fields, Skill_fields, Human_fields, BookingCreate_fields, Booking_fields,
      BountyCreate_fields, BountyApplication_fields, Bounty_fields, Message_fields,
      Conversation_fields]"

text \<open>
  What \<open>pydantic\<close> does with the keys. The values are carried as they come: the validation
  and conversion of a value against its field's type is not modelled, so an entity is
  the list of its attributes, in the order of declaration.

  Construction (\<open>M(**kwargs)\<close>, \<open>M.model_validate(d)\<close>) with \<open>populate_by_name\<close>: a field takes
  the entry under its external name, else the entry under its attribute name, else its
  default; a required field with neither is a validation error. Other entries are
  ignored.
\<close>

definition populate :: "(string \<times> json) list \<Rightarrow> field \<Rightarrow> exn + (string \<times> json)" where
  "populate kw f =
     (case map_of kw (wire_name f) of
        Some v \<Rightarrow> Inr (fname f, v)
      | None \<Rightarrow>
          (case map_of kw (fname f) of
             Some v \<Rightarrow> Inr (fname f, v)
           | None \<Rightarrow>
               (case default_value f of
                  Some d \<Rightarrow> Inr (fname f, d)
                | None \<Rightarrow> Inl PydanticValidationError)))"

definition model_construct ::
  "field list \<Rightarrow> (string \<times> json) list \<Rightarrow> exn + (string \<times> json) list"
where
  "model_construct fds kw = comprehend (populate kw) fds"

text \<open>\<open>model_dump(by_alias=True)\<close>: every attribute, under its field's external name.\<close>

definition alias_of :: "field list \<Rightarrow> string \<Rightarrow> string" where
  "alias_of fds n =
     (case find (\<lambda>f. fname f = n) fds of Some f \<Rightarrow> wire_name f | None \<Rightarrow> n)"

definition model_dump_by_alias ::
  "field list \<Rightarrow> (string \<times> json) list \<Rightarrow> (string \<times> json) list"
where
  "model_dump_by_alias fds e = map (\<lambda>kv. (alias_of fds (fst kv), snd kv)) e"

text \<open>
  A wire payload rewritten to the internal names: each key that is a field's external
  name becomes that field's attribute name.
\<close>

definition name_of :: "field list \<Rightarrow> string \<Rightarrow> string" where
  "name_of fds k =
     (case find (\<lambda>f. wire_name f = k) fds of Some f \<Rightarrow> fname f | None \<Rightarrow> k)"

definition to_internal :: "field list \<Rightarrow> (string \<times> json) list \<Rightarrow> (string \<times> json) list" where
  "to_internal fds payload = map (\<lambda>kv. (name_of fds (fst kv), snd kv)) payload"

text \<open>The keys after the round trip: construct by internal names, dump by external names.\<close>

definition round_trip_keys :: "field list \<Rightarrow> (string \<times> json) list \<Rightarrow> exn + string list" where
  "round_trip_keys fds payload =
     bind_exn (model_construct fds (to_internal fds payload))
       (\<lambda>e. Inr (map fst (model_dump_by_alias fds e)))"

text \<open>The booking of the test suite (\<^verbatim>\<open>tests/conftest.py\<close>, \<open>MOCK_BOOKING\<close>).\<close>

definition MOCK_BOOKING :: "(string \<times> json) list" where
  "MOCK_BOOKING =
     [(''id'', JStr ''booking_001''),
      (''humanId'', JStr ''human_test_001''),
      (''agentId'', JStr ''rentahuman-py''),
      (''taskTitle'', JStr ''Pick up package''),
      (''status'', JStr ''pending''),
      (''startTime'', JStr ''2026-02-10T14:00:00Z''),
      (''estimatedHours'', JNum (3 / 2))]"

section \<open>Notions of the specification\<close>

text \<open>
  The identifiers the specification wants rejected: the empty string, and every string
  that contains a slash, a backslash or two dots in a row.
\<close>

definition unsafe_id :: "string \<Rightarrow> bool" where
  "unsafe_id v =
     (v = [] \<or> CHR ''/'' \<in> set v \<or> CHR 0x5C \<in> set v \<or> (\<exists>p t. v = p @ ''..'' @ t))"

text \<open>
  The specification's \<open>ValidationError\<close>: the client raises it as a \<open>RentAHumanError\<close> with
  the message \<open>Invalid path parameter: \<close> followed by \<open>repr\<close> of the identifier, and no
  status code.
\<close>

definition invalid_path_parameter :: "string \<Rightarrow> exn" where
  "invalid_path_parameter v =
     RentAHumanError (JStr (''Invalid path parameter: '' @ py_repr v)) None"


text \<open>
  The outcomes on which one pass of the blocking loop and one pass of the non-blocking
  loop take the same step: every failure of the call; a 429, unless a negative
  \<open>Retry-After\<close> is to be slept; an error status, unless its body does not decode; a
  success whose body decodes.
\<close>

definition same_step :: "config \<Rightarrow> nat \<Rightarrow> outcome \<Rightarrow> bool" where
  "same_step cfg n out =
     (case out of
        Failure e \<Rightarrow> True
      | Response resp \<Rightarrow>
          if status_code resp = 429 then
            (case retry_after resp of
               Seconds r \<Rightarrow> 0 \<le> r \<or> max_retries cfg \<le> int n
             | _ \<Rightarrow> True)
          else if status_code resp \<ge> 400 then
            (case content resp of Undecodable m \<Rightarrow> False | _ \<Rightarrow> True)
          else
            (case content resp of Decoded j \<Rightarrow> True | _ \<Rightarrow> False))"

section \<open>Sample responses\<close>

text \<open>Responses and scripts of the kind the test suite mocks.\<close>

definition ok_response :: "json \<Rightarrow> response" where
  "ok_response j =
     \<lparr>status_code = 200, retry_after = Absent, reason = Some ''OK'', content = Decoded j\<rparr>"

definition too_many_requests :: "retry_after_header \<Rightarrow> response" where
  "too_many_requests h =
     \<lparr>status_code = 429, retry_after = h, reason = Some ''Too Many Requests'', content = Empty\<rparr>"


definition bad_gateway :: "body \<Rightarrow> response" where
  "bad_gateway b =
     \<lparr>status_code = 502, retry_after = Absent, reason = Some ''Bad Gateway'', content = b\<rparr>"



text \<open>A page that is not JSON, with the decoder's message for it.\<close>

definition html_page :: body where
  "html_page = Undecodable ''Expecting value: line 1 column 1 (char 0)''"


text \<open>First a 429 with \<open>Retry-After: -1\<close>, then an empty object.\<close>

definition negative_retry_after :: "nat \<Rightarrow> outcome" where
  "negative_retry_after n =
     (if n = 0 then Response (too_many_requests (Seconds (- 1)))
      else Response (ok_response (JObj [])))"

section \<open>Supporting lemmas\<close>

subsection \<open>Substrings\<close>

lemma starts_with_iff: "starts_with p s \<longleftrightarrow> (\<exists>t. s = p @ t)"
  by (induction p s rule: starts_with.induct) auto

lemma str_in_iff: "str_in sub s \<longleftrightarrow> (\<exists>p t. s = p @ sub @ t)"
proof (induction s)
  case Nil
  then show ?case by auto
next
  case (Cons c cs)
  show ?case
  proof
    assume "str_in sub (c # cs)"
    then consider "starts_with sub (c # cs)" | "str_in sub cs" by auto
    then show "\<exists>p t. c # cs = p @ sub @ t"
    proof cases
      case 1
      then obtain t where "c # cs = sub @ t" by (auto simp: starts_with_iff)
      then have "c # cs = [] @ sub @ t" by simp
      then show ?thesis by blast
    next
      case 2
      with Cons obtain p t where "cs = p @ sub @ t" by auto
      then have "c # cs = (c # p) @ sub @ t" by simp
      then show ?thesis by blast
    qed
  next
    assume "\<exists>p t. c # cs = p @ sub @ t"
    then obtain p t where pt: "c # cs = p @ sub @ t" by blast
    show "str_in sub (c # cs)"
    proof (cases p)
      case Nil
      with pt have "starts_with sub (c # cs)" by (auto simp: starts_with_iff)
      then show ?thesis by simp
    next
      case (Cons a p')
      with pt have "cs = p' @ sub @ t" by simp
      with Cons.IH have "str_in sub cs" by blast
      then show ?thesis by simp
    qed
  qed
qed

lemma str_in_single: "str_in [c] s \<longleftrightarrow> c \<in> set s"
  by (induction s) auto

text \<open>The sanitizer rejects exactly the identifiers the specification lists.\<close>

lemma sanitize_unsafe:
  "sanitize_path_param v = (if unsafe_id v then Inl (invalid_path_parameter v) else Inr v)"
  by (simp add: sanitize_path_param_def unsafe_id_def invalid_path_parameter_def
      str_in_single str_in_iff [of "''..''"])

lemma unsafe_id_code:
  "unsafe_id v = (v = [] \<or> str_in ''/'' v \<or> str_in [CHR 0x5C] v \<or> str_in ''..'' v)"
  by (simp add: unsafe_id_def str_in_single str_in_iff [of "''..''"])

subsection \<open>The loop\<close>


lemma loop_done:
  "mr < int n \<Longrightarrow>
   request_loop iter mr env rq n =
     ([], Inl (RentAHumanError (JStr (''Request failed after '' @ str_int mr @ '' retries'')) None))"
  by (simp add: request_loop.simps [of iter mr env rq n])

text \<open>Every request of one logical call is the same request, and the budget bounds them.\<close>

lemma request_loop_requests:
  "requests_of (fst (request_loop iter mr env rq n)) =
     replicate (n_requests (fst (request_loop iter mr env rq n))) rq"
proof (induction iter mr env rq n rule: request_loop.induct)
  case (1 iter mr env rq attempt)
  show ?case
  proof (cases "int attempt < mr + 1")
    case False
    then show ?thesis by (simp add: request_loop.simps [of iter mr env rq attempt] n_requests_def)
  next
    case True
    show ?thesis
    proof (cases "iter attempt (env attempt)")
      case (Return j)
      with True show ?thesis
        by (simp add: request_loop.simps [of iter mr env rq attempt] n_requests_def)
    next
      case (Raise ex)
      with True show ?thesis
        by (simp add: request_loop.simps [of iter mr env rq attempt] n_requests_def)
    next
      case (Retry d)
      with True 1 show ?thesis
        by (simp add: request_loop.simps [of iter mr env rq attempt] n_requests_def prepend_def)
    qed
  qed
qed


lemma then_run_fst [simp]: "fst (then_run r f) = fst r"
  by (simp add: then_run_def)

text \<open>Unfolding sets for the evaluation of concrete calls.\<close>

lemmas client_defs = new_client_def BASE_URL_def DEFAULT_TIMEOUT_def rstrip_slash_def

lemmas executor_defs =
  request_sync_def request_async_def request_loop.simps attempt_sync_def attempt_async_def
  on_request_exception_def on_http_error_def time_sleep_def asyncio_sleep_def
  read_retry_after_def resp_json_def error_body_def reason_or_code_def raise_api_error_def
  prepend_def n_requests_def

subsection \<open>Unwrapping and skills\<close>






subsection \<open>Field tables\<close>

lemma find_by_fname:
  "distinct (map fname m) \<Longrightarrow> f \<in> set m \<Longrightarrow> find (\<lambda>g. fname g = fname f) m = Some f"
  by (induction m) (auto simp: rev_image_eqI)

lemma alias_of_field:
  "distinct (map fname m) \<Longrightarrow> f \<in> set m \<Longrightarrow> alias_of m (fname f) = wire_name f"
  by (simp add: alias_of_def find_by_fname)

lemma comprehend_populate_keys:
  "comprehend (populate kw) fs = Inr e \<Longrightarrow> map fst e = map fname fs"
proof (induction fs arbitrary: e)
  case Nil
  then show ?case by simp
next
  case (Cons f fs)
  then show ?case
    by (auto simp: populate_def split: sum.splits option.splits)
qed

lemma round_trip_keys_are_the_declared_names:
  assumes "distinct (map fname m)" and "round_trip_keys m payload = Inr ks"
  shows "ks = map wire_name m"
proof -
  from assms(2) obtain e where e: "model_construct m (to_internal m payload) = Inr e"
    and ks: "ks = map fst (model_dump_by_alias m e)"
    by (auto simp: round_trip_keys_def bind_exn_def split: sum.splits)
  from e have "map fst e = map fname m"
    by (simp add: model_construct_def comprehend_populate_keys)
  moreover have "map fst (model_dump_by_alias m e) = map (alias_of m) (map fst e)"
    by (simp add: model_dump_by_alias_def comp_def)
  ultimately have "map fst (model_dump_by_alias m e) = map (alias_of m) (map fname m)"
    by simp
  also have "\<dots> = map wire_name m"
    using assms(1) by (simp add: alias_of_field)
  finally show ?thesis using ks by simp
qed

lemma entity_models_distinct: "m \<in> set entity_models \<Longrightarrow> distinct (map fname m)"
  by (auto simp: entity_models_def CryptoWallet_fields_def Skill_fields_def Human_fields_def
      BookingCreate_fields_def Booking_fields_def BountyCreate_fields_def
      BountyApplication_fields_def Bounty_fields_def Message_fields_def Conversation_fields_def)

subsection \<open>Where the two executors agree\<close>

text \<open>
  On a script whose every outcome satisfies \<open>same_step\<close>, the blocking and the non-blocking
  executor return the same value or raise the same exception, after the same sleeps and
  the same number of requests.
\<close>

lemma same_step_attempts:
  "same_step cfg n out \<Longrightarrow> attempt_sync cfg n out = attempt_async cfg n out"
  by (auto simp: same_step_def attempt_sync_def attempt_async_def on_request_exception_def
      on_http_error_def time_sleep_def asyncio_sleep_def read_retry_after_def error_body_def
      resp_json_def
      split: outcome.splits retry_after_header.splits body.splits if_splits)

lemma request_loop_cong:
  assumes "\<And>k. iter k (env k) = iter' k (env k)"
  shows "snd (request_loop iter mr env rq n) = snd (request_loop iter' mr env rq' n)
       \<and> sleeps (fst (request_loop iter mr env rq n)) =
           sleeps (fst (request_loop iter' mr env rq' n))
       \<and> n_requests (fst (request_loop iter mr env rq n)) =
           n_requests (fst (request_loop iter' mr env rq' n))"
  using assms
proof (induction iter mr env rq n rule: request_loop.induct)
  case (1 iter mr env rq attempt)
  note same = "1.prems" [of attempt]
  show ?case
  proof (cases "int attempt < mr + 1")
    case False
    then show ?thesis
      by (simp add: request_loop.simps [of _ mr env _ attempt])
  next
    case True
    show ?thesis
    proof (cases "iter attempt (env attempt)")
      case (Return j)
      moreover from Return same have "iter' attempt (env attempt) = Return j"
        by simp
      ultimately show ?thesis using True
        by (simp add: request_loop.simps [of _ mr env _ attempt] n_requests_def)
    next
      case (Raise ex)
      moreover from Raise same have "iter' attempt (env attempt) = Raise ex"
        by simp
      ultimately show ?thesis using True
        by (simp add: request_loop.simps [of _ mr env _ attempt] n_requests_def)
    next
      case (Retry d)
      moreover from Retry same have "iter' attempt (env attempt) = Retry d"
        by simp
      moreover note "1.IH" [OF True Retry "1.prems"]
      ultimately show ?thesis using True
        by (simp add: request_loop.simps [of _ mr env _ attempt] n_requests_def prepend_def)
    qed
  qed
qed

lemma blocking_and_non_blocking_agree:
  assumes "\<And>k. same_step cfg k (env k)"
  shows "snd (request_sync cfg env v path ps js) = snd (request_async cfg env v path ps js)
       \<and> sleeps (fst (request_sync cfg env v path ps js)) =
           sleeps (fst (request_async cfg env v path ps js))
       \<and> n_requests (fst (request_sync cfg env v path ps js)) =
           n_requests (fst (request_async cfg env v path ps js))"
  unfolding request_sync_def request_async_def
  by (rule request_loop_cong) (simp add: same_step_attempts assms)

section \<open>Path parameters\<close>

text \<open>
  Claim C1. Each operation that puts a caller's identifier into the URL path
  (\<open>get_human\<close>, \<open>get_reviews\<close>, \<open>get_booking\<close>, \<open>get_bounty\<close>, \<open>get_bounty_applications\<close>,
  \<open>accept_application\<close> in either identifier, \<open>update_bounty\<close>, \<open>send_message\<close>,
  \<open>get_conversation\<close>), given an identifier that is empty or contains a slash, a
  backslash or two dots in a row, raises the validation error and its effect log is
  empty: no HTTP request is issued, whatever the executor is.
\<close>

theorem unsafe_path_parameter_rejected_without_request:
  assumes "unsafe_id v"
  shows "get_human ex validate_h v = ([], Inl (invalid_path_parameter v))
       \<and> get_reviews ex v = ([], Inl (invalid_path_parameter v))
       \<and> get_booking ex validate_b v = ([], Inl (invalid_path_parameter v))
       \<and> get_bounty ex validate_t v = ([], Inl (invalid_path_parameter v))
       \<and> get_bounty_applications ex validate_a v = ([], Inl (invalid_path_parameter v))
       \<and> accept_application ex v other = ([], Inl (invalid_path_parameter v))
       \<and> accept_application ex other v =
           ([], Inl (invalid_path_parameter (if unsafe_id other then other else v)))
       \<and> update_bounty ex validate_t v updates = ([], Inl (invalid_path_parameter v))
       \<and> send_message ex validate_m v message = ([], Inl (invalid_path_parameter v))
       \<and> get_conversation ex validate_c v = ([], Inl (invalid_path_parameter v))"
  using assms
  by (simp add: sanitize_unsafe get_human_def get_reviews_def get_booking_def get_bounty_def
      get_bounty_applications_def accept_application_def update_bounty_def send_message_def
      get_conversation_def)

text \<open>The scenario of the specification: \<open>get_human("../etc/passwd")\<close>.\<close>

theorem unsafe_path_parameter_rejected_witness:
  "unsafe_id ''../etc/passwd''
   \<and> get_human
        (request_sync (new_client None BASE_URL DEFAULT_TIMEOUT 3) (\<lambda>n. Failure ''unreachable''))
        Skill_model_validate ''../etc/passwd'' =
       ([], Inl (RentAHumanError
                   (JStr (''Invalid path parameter: '' @ [CHR 0x27] @ ''../etc/passwd'' @ [CHR 0x27]))
                   None))"
proof -
  have h: "unsafe_id ''../etc/passwd''"
    by (simp add: unsafe_id_code)
  have m: "invalid_path_parameter ''../etc/passwd'' =
      RentAHumanError
        (JStr (''Invalid path parameter: '' @ [CHR 0x27] @ ''../etc/passwd'' @ [CHR 0x27])) None"
    by (simp add: invalid_path_parameter_def py_repr_def repr_char_def Let_def)
  have "get_human
        (request_sync (new_client None BASE_URL DEFAULT_TIMEOUT 3) (\<lambda>n. Failure ''unreachable''))
        Skill_model_validate ''../etc/passwd'' =
       ([], Inl (invalid_path_parameter ''../etc/passwd''))"
    by (rule unsafe_path_parameter_rejected_without_request [OF h, THEN conjunct1])
  with h m show ?thesis by simp
qed

section \<open>Rate limiting\<close>







section \<open>Error statuses\<close>




section \<open>Transport failures\<close>



section \<open>Limits\<close>

text \<open>
  Claim C6. The \<open>limit\<close> that \<open>search_humans\<close> puts into the query, and that every request
  of the call transmits, is the input clamped to the interval from 1 to 500: 500 for an
  input above 500, 1 for an input below 1, the input itself otherwise.
\<close>

theorem search_humans_limit_clamped:
  "map_of (search_humans_params skill min_rate max_rate nm limit offset) ''limit'' =
     Some (QInt (if limit > 500 then 500 else if limit < 1 then 1 else limit))
   \<and>
   map (query_value ''limit'')
     (requests_of (fst (search_humans (request_sync cfg env) validate skill min_rate max_rate
        nm limit offset))) =
   replicate
     (n_requests (fst (search_humans (request_sync cfg env) validate skill min_rate max_rate
        nm limit offset)))
     (Some (QInt (if limit > 500 then 500 else if limit < 1 then 1 else limit)))
   \<and>
   map (query_value ''limit'')
     (requests_of (fst (search_humans (request_async cfg env) validate skill min_rate max_rate
        nm limit offset))) =
   replicate
     (n_requests (fst (search_humans (request_async cfg env) validate skill min_rate max_rate
        nm limit offset)))
     (Some (QInt (if limit > 500 then 500 else if limit < 1 then 1 else limit)))"
proof -
  have p: "map_of (search_humans_params skill min_rate max_rate nm limit offset) ''limit'' =
      Some (QInt (if limit > 500 then 500 else if limit < 1 then 1 else limit))"
    by (simp add: search_humans_params_def)
  have q: "query_value ''limit'' \<lparr>verb = v, url = u,
      params = Some (search_humans_params skill min_rate max_rate nm limit offset),
      json_arg = js, timeout_arg = t\<rparr> =
      Some (QInt (if limit > 500 then 500 else if limit < 1 then 1 else limit))" for v u js t
    by (simp add: query_value_def p)
  show ?thesis
    by (simp add: p search_humans_def client_get_def request_sync_def request_async_def
        request_loop_requests [of _ _ _ _ 0] q del: replicate.simps)
qed

text \<open>The examples of the specification: 10000 is sent as 500, 0 as 1; 20 stays 20.\<close>

theorem search_humans_limit_clamped_witness:
  "map (query_value ''limit'')
     (requests_of (fst (search_humans
        (request_sync (new_client None BASE_URL DEFAULT_TIMEOUT 3)
           (\<lambda>n. Response (ok_response (JObj [(''humans'', JArr [])]))))
        Skill_model_validate None None None None 10000 0))) = [Some (QInt 500)]
   \<and> map (query_value ''limit'')
     (requests_of (fst (search_humans
        (request_sync (new_client None BASE_URL DEFAULT_TIMEOUT 3)
           (\<lambda>n. Response (ok_response (JObj [(''humans'', JArr [])]))))
        Skill_model_validate None None None None 0 0))) = [Some (QInt 1)]
   \<and> map (query_value ''limit'')
     (requests_of (fst (search_humans
        (request_async (new_client None BASE_URL DEFAULT_TIMEOUT 3)
           (\<lambda>n. Response (ok_response (JObj [(''humans'', JArr [])]))))
        Skill_model_validate None None None None 20 0))) = [Some (QInt 20)]"
proof -
  have n: "n_requests (fst (search_humans
        (request_sync (new_client None BASE_URL DEFAULT_TIMEOUT 3)
           (\<lambda>n. Response (ok_response (JObj [(''humans'', JArr [])]))))
        Skill_model_validate None None None None l 0)) = 1"
     "n_requests (fst (search_humans
        (request_async (new_client None BASE_URL DEFAULT_TIMEOUT 3)
           (\<lambda>n. Response (ok_response (JObj [(''humans'', JArr [])]))))
        Skill_model_validate None None None None l 0)) = 1" for l
    by (simp_all add: search_humans_def client_get_def client_defs executor_defs ok_response_def)
  show ?thesis
    using
      search_humans_limit_clamped [of None None None None 10000 0
        "new_client None BASE_URL DEFAULT_TIMEOUT 3"
        "\<lambda>n. Response (ok_response (JObj [(''humans'', JArr [])]))" Skill_model_validate]
      search_humans_limit_clamped [of None None None None 0 0
        "new_client None BASE_URL DEFAULT_TIMEOUT 3"
        "\<lambda>n. Response (ok_response (JObj [(''humans'', JArr [])]))" Skill_model_validate]
      search_humans_limit_clamped [of None None None None 20 0
        "new_client None BASE_URL DEFAULT_TIMEOUT 3"
        "\<lambda>n. Response (ok_response (JObj [(''humans'', JArr [])]))" Skill_model_validate]
    by (simp add: n)
qed



section \<open>Entity models\<close>

text \<open>
  Claim C7, as the code has it. For every entity model of \<^verbatim>\<open>models.py\<close>: constructing
  the entity from a payload given under the internal field names and serializing it
  under the external names yields exactly the model's declared external names, one key
  for each declared field, in the order of declaration. So the keys of the original wire
  payload come back exactly when the payload has every declared field and no other key.
\<close>

theorem round_trip_yields_declared_wire_names:
  assumes "m \<in> set entity_models" and "round_trip_keys m payload = Inr ks"
  shows "ks = map wire_name m
       \<and> (set ks = set (map fst payload) \<longleftrightarrow> set (map fst payload) = set (map wire_name m))"
  using round_trip_keys_are_the_declared_names [OF entity_models_distinct [OF assms(1)] assms(2)]
  by auto

text \<open>The booking of the test suite comes back with all eight keys of \<open>Booking\<close>.\<close>

theorem round_trip_yields_declared_wire_names_witness:
  "Booking_fields \<in> set entity_models
   \<and> round_trip_keys Booking_fields MOCK_BOOKING =
       Inr [''id'', ''humanId'', ''agentId'', ''taskTitle'', ''status'', ''startTime'',
            ''estimatedHours'', ''createdAt'']
   \<and> [''id'', ''humanId'', ''agentId'', ''taskTitle'', ''status'', ''startTime'',
        ''estimatedHours'', ''createdAt''] = map wire_name Booking_fields"
proof -
  have a: "Booking_fields \<in> set entity_models"
    by (simp add: entity_models_def)
  have b: "round_trip_keys Booking_fields MOCK_BOOKING =
       Inr [''id'', ''humanId'', ''agentId'', ''taskTitle'', ''status'', ''startTime'',
            ''estimatedHours'', ''createdAt'']"
    by (simp add: round_trip_keys_def model_construct_def to_internal_def name_of_def
      model_dump_by_alias_def alias_of_def populate_def bind_exn_def Booking_fields_def
      MOCK_BOOKING_def)
  from round_trip_yields_declared_wire_names [OF a b] a b show ?thesis by simp
qed

text \<open>
  That booking has seven keys: the round trip adds \<open>createdAt\<close>, the field it does not
  carry, so the keys of the payload are not reproduced.
\<close>

theorem booking_round_trip_adds_a_key:
  "round_trip_keys Booking_fields MOCK_BOOKING = Inr (map fst MOCK_BOOKING @ [''createdAt''])
   \<and> ''createdAt'' \<notin> set (map fst MOCK_BOOKING)"
  by (simp add: round_trip_keys_def model_construct_def to_internal_def name_of_def
      model_dump_by_alias_def alias_of_def populate_def bind_exn_def Booking_fields_def
      MOCK_BOOKING_def)

section \<open>Response unwrapping\<close>



section \<open>Blocking and non-blocking executor\<close>

text \<open>
  Claim C9 does not hold of the code. The two executors differ on a 429 with a negative
  \<open>Retry-After\<close> while retries are left (\<open>time.sleep\<close> raises \<open>ValueError\<close>, \<open>asyncio.sleep\<close>
  returns and the request is retried), and on a body that does not decode (the blocking
  client handles the decoder's exception as a transport failure and retries, the
  non-blocking client lets \<open>JSONDecodeError\<close> out after one request).
\<close>

theorem blocking_and_non_blocking_diverge:
  "request_sync (new_client None BASE_URL DEFAULT_TIMEOUT 3) negative_retry_after
      ''GET'' ''/humans'' None None =
     ([Request \<lparr>verb = ''GET'', url = ''https://rentahuman.ai/api/humans'', params = None,
                json_arg = None, timeout_arg = Some 30\<rparr>],
      Inl ValueError)
   \<and> snd (request_async (new_client None BASE_URL DEFAULT_TIMEOUT 3) negative_retry_after
      ''GET'' ''/humans'' None None) = Inr (JObj [])
   \<and> n_requests (fst (request_async (new_client None BASE_URL DEFAULT_TIMEOUT 3)
      negative_retry_after ''GET'' ''/humans'' None None)) = 2
   \<and> n_requests (fst (request_sync (new_client None BASE_URL DEFAULT_TIMEOUT 3)
          (\<lambda>n. Response (bad_gateway html_page)) ''GET'' ''/humans'' None None)) = 4
   \<and> snd (request_sync (new_client None BASE_URL DEFAULT_TIMEOUT 3)
          (\<lambda>n. Response (bad_gateway html_page)) ''GET'' ''/humans'' None None) =
     Inl (RentAHumanError
            (JStr ''Request failed: Expecting value: line 1 column 1 (char 0)'') None)
   \<and> n_requests (fst (request_async (new_client None BASE_URL DEFAULT_TIMEOUT 3)
          (\<lambda>n. Response (bad_gateway html_page)) ''GET'' ''/humans'' None None)) = 1
   \<and> snd (request_async (new_client None BASE_URL DEFAULT_TIMEOUT 3)
          (\<lambda>n. Response (bad_gateway html_page)) ''GET'' ''/humans'' None None) =
     Inl (JSONDecodeError ''Expecting value: line 1 column 1 (char 0)'')"
  by (simp add: client_defs executor_defs negative_retry_after_def too_many_requests_def ok_response_def
      bad_gateway_def html_page_def)

end
